theory Spec2Isabelle
  imports Complex_Main "HOL-Library.Sublist"
begin

section \<open>The load-test component: data model\<close>

text \<open>
  The development embeds the engine of \<^verbatim>\<open>src/components/DDoSTestConfig.tsx\<close>:
  the functions \<^verbatim>\<open>addLog\<close>, \<^verbatim>\<open>parseHeaders\<close>, \<^verbatim>\<open>makeRequest\<close>, \<^verbatim>\<open>runTest\<close> and
  \<^verbatim>\<open>stopTest\<close> of the component, and the condition under which the Stop button is
  rendered.

  Conventions.
  \<^item> JavaScript strings are \<open>string\<close>, one \<open>char\<close> for a code unit; the texts are
    taken to have code units below 256 only, so the white space removed by
    \<^verbatim>\<open>trim\<close> is the white space in that range.
  \<^item> \<^verbatim>\<open>requestCount\<close> and \<^verbatim>\<open>concurrency\<close> are written by the form handlers as
    \<^verbatim>\<open>parseInt(...) || default\<close>, so they are integers (possibly negative, never
    \<open>NaN\<close>); they are \<open>int\<close>, and the arithmetic on them is exact (the doubles of
    JavaScript are exact on integers below \<open>2^53\<close>).
  \<^item> The progress percentage is computed in doubles: the division and the
    multiplication of line 149 are rounded to the nearest double. Its value, and the
    times measured by \<^verbatim>\<open>performance.now()\<close>, are \<open>real\<close>.
  \<^item> Everything the environment decides (what \<^verbatim>\<open>fetch\<close> does, the clocks, when the
    user clicks Stop) is a field of the record \<open>world\<close>.
\<close>

record TestConfig =
  url :: string
  httpMethod :: string  \<comment> \<open>the field \<^verbatim>\<open>method\<close>\<close>
  requestCount :: int
  concurrency :: int
  payload :: string
  authToken :: string
  headers :: string

record TestResult =
  totalRequests :: int
  successfulRequests :: nat
  failedRequests :: nat
  averageResponseTime :: real
  startTime :: nat
  endTime :: "nat option"
  isRunning :: bool

text \<open>
  A log line is \<^verbatim>\<open>`[${timestamp}] ${message}`\<close>. The message templates of the source
  are kept as constructors (with the values they interpolate), the timestamp as the
  string \<^verbatim>\<open>toLocaleTimeString()\<close> returned; the rendering of numbers is not modelled.
\<close>

datatype log_message =
    UrlRequired                      \<comment> \<open>\<^verbatim>\<open>Error: URL is required\<close>\<close>
  | Starting string                  \<comment> \<open>\<^verbatim>\<open>Starting DDoS test on ${config.url}\<close>\<close>
  | Configuration int int            \<comment> \<open>\<^verbatim>\<open>Configuration: ${requestCount} requests, ${concurrency} concurrent\<close>\<close>
  | BatchCompleted int int nat nat   \<comment> \<open>\<^verbatim>\<open>Batch ${batch + 1}/${totalBatches} completed - Success: .., Failed: ..\<close>\<close>
  | TestCompleted                    \<comment> \<open>\<^verbatim>\<open>Test completed\<close>\<close>
  | Results nat nat                  \<comment> \<open>\<^verbatim>\<open>Results: ${..} successful, ${..} failed\<close>\<close>
  | AverageTime real                 \<comment> \<open>\<^verbatim>\<open>Average response time: ${..}ms\<close>\<close>
  | StoppedByUser                    \<comment> \<open>\<^verbatim>\<open>Test stopped by user\<close>\<close>

type_synonym log_line = "string \<times> log_message"

text \<open>The React state of the component (the configuration is passed separately).\<close>

record component =
  result :: "TestResult option"
  currentProgress :: real
  logs :: "log_line list"

text \<open>A thrown JavaScript value: an \<^verbatim>\<open>Error\<close> with its message, or anything else.\<close>

datatype js_error = Error string | NonError

text \<open>What \<^verbatim>\<open>await fetch(...)\<close> does: it yields a response (of which the code reads
  the status only) or throws.\<close>

datatype fetch_result = Resolves nat | Rejects js_error

record RequestInit =
  ri_method :: string
  ri_headers :: "string \<rightharpoonup> string"
  ri_body :: "string option"

text \<open>The object \<^verbatim>\<open>makeRequest\<close> returns.\<close>

record request_outcome =
  success :: bool
  status :: "nat option"
  error :: "string option"
  responseTime :: real

record world =
  fetch :: "nat \<Rightarrow> nat \<Rightarrow> string \<Rightarrow> RequestInit \<Rightarrow> fetch_result"
    \<comment> \<open>the call of \<^verbatim>\<open>fetch\<close> by request \<open>i\<close> of batch \<open>b\<close>\<close>
  perfStart :: "nat \<Rightarrow> nat \<Rightarrow> real"
    \<comment> \<open>\<^verbatim>\<open>performance.now()\<close> before that call\<close>
  perfEnd :: "nat \<Rightarrow> nat \<Rightarrow> real"
    \<comment> \<open>\<^verbatim>\<open>performance.now()\<close> after it settled\<close>
  localeTime :: "nat \<Rightarrow> string"
    \<comment> \<open>\<^verbatim>\<open>new Date().toLocaleTimeString()\<close> when the log line at this position is added\<close>
  dateAtStart :: nat
  dateAtEnd :: nat
  stopDuringBatch :: "nat \<Rightarrow> bool"
    \<comment> \<open>the user clicks Stop while batch \<open>b\<close> is awaited\<close>
  stopDuringPause :: "nat \<Rightarrow> bool"
    \<comment> \<open>the user clicks Stop during the 100 ms pause after batch \<open>b\<close>\<close>


section \<open>Strings\<close>

text \<open>
  The white space and the line terminators of JavaScript below 256: tab, line feed,
  vertical tab, form feed, carriage return, space and the no-break space.
\<close>

definition js_space :: "char \<Rightarrow> bool" where
  "js_space c \<longleftrightarrow>
     c \<in> set [CHR 0x09, CHR 0x0A, CHR 0x0B, CHR 0x0C, CHR 0x0D, CHR 0x20, CHR 0xA0]"

text \<open>\<^verbatim>\<open>s.trim()\<close>\<close>

definition trim :: "string \<Rightarrow> string" where
  "trim s = rev (dropWhile js_space (rev (dropWhile js_space s)))"

text \<open>\<^verbatim>\<open>s.split(c)\<close> for a one-character separator: every occurrence of the separator
  cuts, and the result has at least one piece.\<close>

fun split :: "char \<Rightarrow> string \<Rightarrow> string list" where
  "split c [] = [[]]"
| "split c (x # xs) =
     (if x = c then [] # split c xs
      else (case split c xs of
              [] \<Rightarrow> [[x]]
            | piece # pieces \<Rightarrow> (x # piece) # pieces))"


section \<open>parseHeaders\<close>

text \<open>
  \<^verbatim>\<open>headers[key] = value\<close> on an object created by \<^verbatim>\<open>{}\<close>, for a string value. The
  key \<^verbatim>\<open>__proto__\<close> reaches the setter inherited from \<^verbatim>\<open>Object.prototype\<close>, which
  ignores a value that is neither an object nor \<^verbatim>\<open>null\<close>: no property is created.
\<close>

definition set_property :: "(string \<rightharpoonup> string) \<Rightarrow> string \<Rightarrow> string \<Rightarrow> (string \<rightharpoonup> string)" where
  "set_property obj key v = (if key = ''__proto__'' then obj else obj(key \<mapsto> v))"

text \<open>
  The body of the \<^verbatim>\<open>forEach\<close> of \<^verbatim>\<open>parseHeaders\<close> (lines 57 to 60):
  \<^verbatim>\<open>const [key, value] = header.split(':').map(s => s.trim())\<close> takes the first two
  pieces (\<^verbatim>\<open>value\<close> is \<^verbatim>\<open>undefined\<close> when there is one piece only), and
  \<^verbatim>\<open>if (key && value)\<close> asks for both to be non-empty strings.
\<close>

definition add_header_line :: "string \<Rightarrow> (string \<rightharpoonup> string) \<Rightarrow> (string \<rightharpoonup> string)" where
  "add_header_line header hs =
     (case map trim (split (CHR '':'') header) of
        key # v # _ \<Rightarrow> (if key \<noteq> [] \<and> v \<noteq> [] then set_property hs key v else hs)
      | _ \<Rightarrow> hs)"

text \<open>Lines 54 to 62: the custom headers.\<close>

definition parseHeaderLines :: "string \<Rightarrow> (string \<rightharpoonup> string)" where
  "parseHeaderLines headersString =
     (if trim headersString \<noteq> []
      then fold add_header_line (split (CHR 0x0A) headersString) Map.empty
      else Map.empty)"

text \<open>Lines 53 to 69: the custom headers, then the \<^verbatim>\<open>Authorization\<close> entry.\<close>

definition parseHeaders :: "TestConfig \<Rightarrow> string \<Rightarrow> (string \<rightharpoonup> string)" where
  "parseHeaders config headersString =
     (let hs = parseHeaderLines headersString
      in if authToken config \<noteq> []
         then hs(''Authorization'' \<mapsto>
                  (if prefix ''Bearer '' (authToken config)
                   then authToken config
                   else ''Bearer '' @ authToken config))
         else hs)"


section \<open>makeRequest\<close>

text \<open>
  A computation that may throw is a value of \<open>js_error + 'a\<close> (\<open>Inl\<close> is the thrown
  value), and so is a settled promise (\<open>Inl\<close> is the rejection reason).
\<close>

definition try_catch :: "js_error + 'a \<Rightarrow> (js_error \<Rightarrow> js_error + 'a) \<Rightarrow> js_error + 'a" where
  "try_catch body handler = (case body of Inl e \<Rightarrow> handler e | Inr v \<Rightarrow> Inr v)"

text \<open>
  Lines 72 to 83: the options passed to \<^verbatim>\<open>fetch\<close>. The spread
  \<^verbatim>\<open>{'Content-Type': 'application/json', ...headers}\<close> lets a parsed header of that
  name replace the default.
\<close>

definition request_options :: "TestConfig \<Rightarrow> RequestInit" where
  "request_options config =
     (let hdrs = parseHeaders config (headers config);
          requestOptions = \<lparr>ri_method = httpMethod config,
                            ri_headers = [''Content-Type'' \<mapsto> ''application/json''] ++ hdrs,
                            ri_body = None\<rparr>
      in if httpMethod config \<noteq> ''GET'' \<and> payload config \<noteq> []
         then requestOptions\<lparr>ri_body := Some (payload config)\<rparr>
         else requestOptions)"

text \<open>
  Lines 71 to 102, for request \<open>i\<close> of batch \<open>b\<close>. Nothing before the \<^verbatim>\<open>try\<close> can
  throw (string operations and an object literal); the \<^verbatim>\<open>try\<close> block awaits
  \<^verbatim>\<open>fetch\<close>, and the \<^verbatim>\<open>catch\<close> block returns an object.
\<close>

definition makeRequest :: "world \<Rightarrow> TestConfig \<Rightarrow> nat \<Rightarrow> nat \<Rightarrow> js_error + request_outcome" where
  "makeRequest w config b i =
     (let requestOptions = request_options config;
          startTime = perfStart w b i
      in try_catch
           (case fetch w b i (url config) requestOptions of
              Rejects e \<Rightarrow> Inl e
            | Resolves st \<Rightarrow>
                Inr \<lparr>success = True, status = Some st, error = None,
                     responseTime = perfEnd w b i - startTime\<rparr>)
           (\<lambda>e. Inr \<lparr>success = False, status = None,
                      error = Some (case e of Error m \<Rightarrow> m | NonError \<Rightarrow> ''Unknown error''),
                      responseTime = perfEnd w b i - startTime\<rparr>))"


section \<open>addLog, stopTest and the Stop button\<close>

text \<open>\<^verbatim>\<open>setLogs(prev => [...prev, `[${timestamp}] ${message}`])\<close>\<close>

definition addLog :: "world \<Rightarrow> log_message \<Rightarrow> 'a component_scheme \<Rightarrow> 'a component_scheme" where
  "addLog w message c = c\<lparr>logs := logs c @ [(localeTime w (length (logs c)), message)]\<rparr>"

text \<open>Lines 176 to 181. The guard is \<^verbatim>\<open>if (result)\<close>: a result object exists.\<close>

definition stopTest :: "world \<Rightarrow> 'a component_scheme \<Rightarrow> 'a component_scheme" where
  "stopTest w c =
     (case result c of
        None \<Rightarrow> c
      | Some r \<Rightarrow> addLog w StoppedByUser (c\<lparr>result := Some (r\<lparr>isRunning := False\<rparr>)\<rparr>))"

text \<open>Line 307: the Stop button is rendered when \<^verbatim>\<open>result?.isRunning\<close>.\<close>

definition stopButtonShown :: "'a component_scheme \<Rightarrow> bool" where
  "stopButtonShown c = (case result c of None \<Rightarrow> False | Some r \<Rightarrow> isRunning r)"

text \<open>A click on Stop: it reaches \<^verbatim>\<open>stopTest\<close> when the button is there.\<close>

definition clickStop :: "world \<Rightarrow> 'a component_scheme \<Rightarrow> 'a component_scheme" where
  "clickStop w c = (if stopButtonShown c then stopTest w c else c)"


section \<open>Doubles\<close>

text \<open>
  A positive double is \<open>M * 2 ^ e\<close> for a mantissa \<open>M\<close> below \<open>2 ^ 53\<close> and an exponent
  \<open>e\<close>. An arithmetic operation yields the double nearest to the exact result, the
  one with the even mantissa when two are equally near. The bounds on the exponent
  are left out: the operations below are applied to integers from 1 to \<open>2 ^ 53\<close> and
  to their quotients, far from overflow and underflow.
\<close>

type_synonym double = "int \<times> int"

definition double_value :: "double \<Rightarrow> real" where
  "double_value d =
     (case d of (M, e) \<Rightarrow>
        if 0 \<le> e then real_of_int (M * 2 ^ nat e) else real_of_int M / 2 ^ nat (- e))"

text \<open>The number of binary digits of a natural number.\<close>

fun bit_length :: "nat \<Rightarrow> nat" where
  "bit_length n = (if n = 0 then 0 else Suc (bit_length (n div 2)))"

declare bit_length.simps [simp del]

text \<open>The integer nearest to \<open>num / den\<close>, the even one of two equally near, for
  \<open>0 \<le> num\<close> and \<open>0 < den\<close>.\<close>

definition round_half_even :: "int \<Rightarrow> int \<Rightarrow> int" where
  "round_half_even num den =
     (let f = num div den; r = num mod den
      in if 2 * r < den then f
         else if den < 2 * r then f + 1
         else if even f then f else f + 1)"

text \<open>
  The double nearest to \<open>p / q\<close>, for positive integers \<open>p\<close> and \<open>q\<close>. The quotient
  lies between \<open>2 ^ (d - 1)\<close> and \<open>2 ^ (d + 1)\<close> for the difference \<open>d\<close> of the bit
  lengths, so its mantissa has 53 bits with the exponent \<open>d - 53\<close> or the next one.
  (The loop divides and multiplies positive numbers only; the value for other
  arguments is not used.)
\<close>

definition nearest_double :: "int \<Rightarrow> int \<Rightarrow> double" where
  "nearest_double p q =
     (if p \<le> 0 \<or> q \<le> 0 then (0, 0)
      else
        (let e0 = int (bit_length (nat p)) - int (bit_length (nat q)) - 53;
             e = (if p * 2 ^ nat (- e0) div (q * 2 ^ nat e0) < 2 ^ 53 then e0 else e0 + 1)
         in (round_half_even (p * 2 ^ nat (- e)) (q * 2 ^ nat e), e)))"

text \<open>\<^verbatim>\<open>a / b\<close> for integers, and \<^verbatim>\<open>d * n\<close> for a double and an integer.\<close>

definition double_div :: "int \<Rightarrow> int \<Rightarrow> double" where
  "double_div a b = nearest_double a b"

definition double_times :: "double \<Rightarrow> int \<Rightarrow> double" where
  "double_times d n =
     (case d of (M, e) \<Rightarrow> nearest_double (M * n * 2 ^ nat e) (2 ^ nat (- e)))"


section \<open>runTest\<close>

text \<open>
  While \<^verbatim>\<open>runTest\<close> runs there are, beside the React state, its local object
  \<^verbatim>\<open>testResult\<close> and its local array \<^verbatim>\<open>responseTimes\<close>. Two more fields record what
  the run did: \<open>dispatched\<close>, the sizes of the batches handed to
  \<^verbatim>\<open>Promise.allSettled\<close>, in order, and \<open>progressTrace\<close>, the successive arguments of
  \<^verbatim>\<open>setCurrentProgress\<close>.
\<close>

record run_state = component +
  testResult :: TestResult
  responseTimes :: "real list"
  dispatched :: "int list"
  progressTrace :: "real list"

text \<open>A JavaScript number that need not be finite.\<close>

datatype js_number = Finite int | PosInfinity | NegInfinity | NaN

text \<open>\<^verbatim>\<open>Math.ceil(n / d)\<close> for integers \<open>n\<close> and \<open>d\<close>.\<close>

definition ceil_div :: "int \<Rightarrow> int \<Rightarrow> js_number" where
  "ceil_div n d =
     (if d \<noteq> 0 then Finite \<lceil>real_of_int n / real_of_int d\<rceil>
      else if 0 < n then PosInfinity
      else if n < 0 then NegInfinity
      else NaN)"

text \<open>The callback of \<^verbatim>\<open>batchResults.forEach\<close> (lines 136 to 147), on one settled promise.\<close>

definition settle :: "js_error + request_outcome \<Rightarrow> run_state \<Rightarrow> run_state" where
  "settle r s =
     (case r of
        Inr v \<Rightarrow>
          (let tr = testResult s;
               tr = (if success v
                     then tr\<lparr>successfulRequests := successfulRequests tr + 1\<rparr>
                     else tr\<lparr>failedRequests := failedRequests tr + 1\<rparr>)
           in s\<lparr>testResult := tr, responseTimes := responseTimes s @ [responseTime v]\<rparr>)
      | Inl reason \<Rightarrow>
          s\<lparr>testResult := (testResult s)\<lparr>failedRequests := failedRequests (testResult s) + 1\<rparr>\<rparr>)"

text \<open>
  One iteration of the loop from the creation of the promises on (lines 131 to 158).
  \<^verbatim>\<open>Promise.allSettled\<close> never rejects and nothing else in the \<^verbatim>\<open>try\<close> block throws,
  so the \<^verbatim>\<open>catch\<close> of line 159 is not reached. The function is suspended twice, at
  \<^verbatim>\<open>await Promise.allSettled\<close> and at the pause; there the user can click Stop.
\<close>

definition run_batch :: "world \<Rightarrow> TestConfig \<Rightarrow> int \<Rightarrow> int \<Rightarrow> int \<Rightarrow> run_state \<Rightarrow> run_state" where
  "run_batch w config totalBatches batch requestsInBatch s =
     (let batchPromises = map (makeRequest w config (nat batch)) [0..<nat requestsInBatch];
          s = s\<lparr>dispatched := dispatched s @ [requestsInBatch]\<rparr>;
          s = (if stopDuringBatch w (nat batch) then clickStop w s else s);
          s = fold settle batchPromises s;
          progress = double_value (double_times (double_div (batch + 1) totalBatches) 100);
          s = s\<lparr>currentProgress := progress, progressTrace := progressTrace s @ [progress]\<rparr>;
          s = addLog w (BatchCompleted (batch + 1) totalBatches
                          (successfulRequests (testResult s)) (failedRequests (testResult s))) s;
          s = s\<lparr>result := Some (testResult s)\<rparr>
      in if batch < totalBatches - 1 \<and> stopDuringPause w (nat batch) then clickStop w s else s)"

text \<open>
  The \<^verbatim>\<open>for\<close> loop of lines 129 to 162, for a finite \<^verbatim>\<open>totalBatches\<close>.
  \<^verbatim>\<open>Array(requestsInBatch)\<close> throws a \<^verbatim>\<open>RangeError\<close> outside the \<^verbatim>\<open>try\<close> block when
  its argument is not an array length.
\<close>

function batch_loop ::
  "world \<Rightarrow> TestConfig \<Rightarrow> int \<Rightarrow> int \<Rightarrow> run_state \<Rightarrow> js_error \<times> run_state + run_state" where
  "batch_loop w config totalBatches batch s =
     (if batch < totalBatches then
        (let batchSize = concurrency config;
             requestsInBatch = min batchSize (requestCount config - batch * batchSize)
         in if requestsInBatch < 0 \<or> 4294967295 < requestsInBatch
            then Inl (Error ''Invalid array length'', s)
            else batch_loop w config totalBatches (batch + 1)
                   (run_batch w config totalBatches batch requestsInBatch s))
      else Inr s)"
  by pat_completeness auto
termination
  by (relation "measure (\<lambda>(w, config, totalBatches, batch, s). nat (totalBatches - batch))") auto

declare batch_loop.simps [simp del]

text \<open>Lines 164 to 173.\<close>

definition finalize :: "world \<Rightarrow> run_state \<Rightarrow> run_state" where
  "finalize w s =
     (let tr = (testResult s)\<lparr>endTime := Some (dateAtEnd w), isRunning := False\<rparr>;
          tr = tr\<lparr>averageResponseTime :=
                    (if length (responseTimes s) > 0
                     then sum_list (responseTimes s) / real (length (responseTimes s))
                     else 0)\<rparr>;
          s = s\<lparr>testResult := tr, result := Some tr\<rparr>;
          s = addLog w TestCompleted s;
          s = addLog w (Results (successfulRequests tr) (failedRequests tr)) s
      in addLog w (AverageTime (averageResponseTime tr)) s)"

text \<open>
  How a call of \<^verbatim>\<open>runTest\<close> ends: by the \<^verbatim>\<open>return\<close> of line 107, at the end of the
  function, by an exception nothing catches, or never.
\<close>

datatype run_exit =
    EarlyReturn component
  | Finished run_state
  | Uncaught js_error run_state
  | NeverReturns

text \<open>
  Lines 110 to 123: the local object, published by \<^verbatim>\<open>setResult\<close>, the progress and
  the logs reset, and the first two log lines. Nothing of the previous state is kept.
\<close>

definition start_run :: "world \<Rightarrow> TestConfig \<Rightarrow> run_state" where
  "start_run w config =
     (let tr = \<lparr>totalRequests = requestCount config, successfulRequests = 0,
                failedRequests = 0, averageResponseTime = 0,
                startTime = dateAtStart w, endTime = None, isRunning = True\<rparr>;
          s = \<lparr>result = Some tr, currentProgress = 0, logs = [],
               testResult = tr, responseTimes = [], dispatched = [], progressTrace = [0]\<rparr>;
          s = addLog w (Starting (url config)) s
      in addLog w (Configuration (requestCount config) (concurrency config)) s)"

text \<open>
  Lines 104 to 174. When \<^verbatim>\<open>totalBatches\<close> is \<^verbatim>\<open>Infinity\<close> (\<open>concurrency = 0\<close> and
  \<open>requestCount > 0\<close>) the loop condition always holds and every batch is empty, so
  the loop does not end. When it is \<^verbatim>\<open>-Infinity\<close> or \<^verbatim>\<open>NaN\<close> the condition
  \<^verbatim>\<open>0 < totalBatches\<close> is false.
\<close>

definition runTest :: "world \<Rightarrow> TestConfig \<Rightarrow> component \<Rightarrow> run_exit" where
  "runTest w config c =
     (if url config = [] then EarlyReturn (addLog w UrlRequired c)
      else
        (let s = start_run w config;
             batchSize = concurrency config
         in case ceil_div (requestCount config) batchSize of
              Finite totalBatches \<Rightarrow>
                (case batch_loop w config totalBatches 0 s of
                   Inl (e, s') \<Rightarrow> Uncaught e s'
                 | Inr s' \<Rightarrow> Finished (finalize w s'))
            | PosInfinity \<Rightarrow> NeverReturns
            | NegInfinity \<Rightarrow> Finished (finalize w s)
            | NaN \<Rightarrow> Finished (finalize w s)))"


section \<open>Notions used in the statements\<close>

text \<open>The number of requests counted so far, as successes or as failures.\<close>

definition settled :: "run_state \<Rightarrow> nat" where
  "settled s = successfulRequests (testResult s) + failedRequests (testResult s)"

text \<open>The sizes the loop computes for the batches \<open>b\<close>, \<open>b + 1\<close>, ... below \<open>m\<close>, and
  the progress values it computes after them.\<close>

definition batch_sizes :: "TestConfig \<Rightarrow> int \<Rightarrow> int \<Rightarrow> int list" where
  "batch_sizes config m b =
     map (\<lambda>j. min (concurrency config) (requestCount config - j * concurrency config)) [b..m - 1]"

definition batch_progress :: "int \<Rightarrow> int \<Rightarrow> real list" where
  "batch_progress m b =
     map (\<lambda>j. double_value (double_times (double_div (j + 1) m) 100)) [b..m - 1]"

text \<open>
  A concrete run: ten requests, three at a time, every request answered with status
  200 after one millisecond, and one click on Stop during the pause that follows the
  first of the four batches.
\<close>

definition example_world :: world where
  "example_world =
     \<lparr>fetch = (\<lambda>b i u r. Resolves 200), perfStart = (\<lambda>b i. 0), perfEnd = (\<lambda>b i. 1),
      localeTime = (\<lambda>n. ''12:00:00''), dateAtStart = 0, dateAtEnd = 1,
      stopDuringBatch = (\<lambda>b. False), stopDuringPause = (\<lambda>b. b = 0)\<rparr>"

definition example_config :: TestConfig where
  "example_config =
     \<lparr>url = ''http://localhost/'', httpMethod = ''GET'', requestCount = 10, concurrency = 3,
      payload = [], authToken = [], headers = []\<rparr>"

definition idle :: component where
  "idle = \<lparr>result = None, currentProgress = 0, logs = []\<rparr>"

definition example_result :: TestResult where
  "example_result =
     \<lparr>totalRequests = 10, successfulRequests = 10, failedRequests = 0,
      averageResponseTime = 1, startTime = 0, endTime = Some 1, isRunning = False\<rparr>"

definition example_final :: run_state where
  "example_final =
     \<lparr>result = Some example_result,
      currentProgress = 100,
      logs = map (Pair ''12:00:00'')
        [Starting ''http://localhost/'', Configuration 10 3,
         BatchCompleted 1 4 3 0, StoppedByUser,
         BatchCompleted 2 4 6 0, BatchCompleted 3 4 9 0, BatchCompleted 4 4 10 0,
         TestCompleted, Results 10 0, AverageTime 1],
      testResult = example_result,
      responseTimes = [1, 1, 1, 1, 1, 1, 1, 1, 1, 1],
      dispatched = [3, 3, 3, 1],
      progressTrace = [0, 25, 50, 75, 100]\<rparr>"

text \<open>
  The same world without the click, and the state of the run at the end of the first
  batch, when the pause begins.
\<close>

definition quiet_world :: world where
  "quiet_world = example_world\<lparr>stopDuringPause := (\<lambda>b. False)\<rparr>"

definition first_batch_result :: TestResult where
  "first_batch_result =
     \<lparr>totalRequests = 10, successfulRequests = 3, failedRequests = 0,
      averageResponseTime = 0, startTime = 0, endTime = None, isRunning = True\<rparr>"

definition running_example :: run_state where
  "running_example =
     \<lparr>result = Some first_batch_result,
      currentProgress = 25,
      logs = map (Pair ''12:00:00'')
        [Starting ''http://localhost/'', Configuration 10 3, BatchCompleted 1 4 3 0],
      testResult = first_batch_result,
      responseTimes = [1, 1, 1],
      dispatched = [3],
      progressTrace = [0, 25]\<rparr>"

text \<open>A component that shows a finished result, and a configuration without a target.\<close>

definition completed :: component where
  "completed = \<lparr>result = Some example_result, currentProgress = 100, logs = []\<rparr>"

definition no_url_config :: TestConfig where
  "no_url_config = example_config\<lparr>url := []\<rparr>"

text \<open>The value of the derived \<^verbatim>\<open>Authorization\<close> header for a token.\<close>

definition bearer :: "string \<Rightarrow> string" where
  "bearer token = (if prefix ''Bearer '' token then token else ''Bearer '' @ token)"

text \<open>Header texts: three lines of which the second has no colon, and two lines whose
  keys differ in letter case only.\<close>

definition newline_example :: string where
  "newline_example = ''X-Test: 1'' @ [CHR 0x0A] @ ''BadLine'' @ [CHR 0x0A] @ ''Y: 2''"

definition two_authorizations :: string where
  "two_authorizations = ''authorization: Basic old'' @ [CHR 0x0A] @ ''Authorization: Basic older''"


section \<open>Auxiliary facts\<close>

text \<open>A request always fulfils; what folding a batch of fulfilled requests does to the
  counters, and what it leaves alone.\<close>

lemma makeRequest_fulfilled: "\<exists>v. makeRequest w config b i = Inr v"
  by (simp add: makeRequest_def try_catch_def Let_def split: fetch_result.splits)

lemma settle_fulfilled:
  "settled (settle (Inr v) s) = Suc (settled s) \<and>
   length (responseTimes (settle (Inr v) s)) = Suc (length (responseTimes s))"
  by (simp add: settle_def settled_def Let_def)

lemma settle_frame:
  "totalRequests (testResult (settle r s)) = totalRequests (testResult s) \<and>
   dispatched (settle r s) = dispatched s \<and> progressTrace (settle r s) = progressTrace s"
  by (simp add: settle_def Let_def split: sum.splits)

lemma fold_settle_frame:
  "totalRequests (testResult (fold settle rs s)) = totalRequests (testResult s) \<and>
   dispatched (fold settle rs s) = dispatched s \<and> progressTrace (fold settle rs s) = progressTrace s"
  by (induction rs arbitrary: s) (simp_all add: settle_frame)

lemma fold_settle_fulfilled:
  "\<forall>r \<in> set rs. \<exists>v. r = Inr v \<Longrightarrow>
   settled (fold settle rs s) = settled s + length rs \<and>
   length (responseTimes (fold settle rs s)) = length (responseTimes s) + length rs"
proof (induction rs arbitrary: s)
  case Nil
  then show ?case by simp
next
  case (Cons r rs)
  then obtain v where r: "r = Inr v" by auto
  from Cons have "\<forall>r \<in> set rs. \<exists>v. r = Inr v" by simp
  from Cons.IH [OF this, of "settle r s"] show ?case
    by (simp add: r settle_fulfilled)
qed

lemma clickStop_frame:
  "testResult (clickStop w s) = testResult s \<and> responseTimes (clickStop w s) = responseTimes s \<and>
   dispatched (clickStop w s) = dispatched s \<and> progressTrace (clickStop w s) = progressTrace s \<and>
   currentProgress (clickStop w s) = currentProgress s"
  by (simp add: clickStop_def stopTest_def addLog_def split: option.splits)

lemma run_batch_effect:
  shows "settled (run_batch w config m b n s) = settled s + nat n"
    and "length (responseTimes (run_batch w config m b n s)) = length (responseTimes s) + nat n"
    and "totalRequests (testResult (run_batch w config m b n s)) = totalRequests (testResult s)"
    and "dispatched (run_batch w config m b n s) = dispatched s @ [n]"
    and "progressTrace (run_batch w config m b n s) =
           progressTrace s @ [double_value (double_times (double_div (b + 1) m) 100)]"
    and "currentProgress (run_batch w config m b n s) = double_value (double_times (double_div (b + 1) m) 100)"
proof -
  let ?rs = "map (makeRequest w config (nat b)) [0..<nat n]"
  have all: "\<forall>r \<in> set ?rs. \<exists>v. r = Inr v"
    using makeRequest_fulfilled by auto
  note f = fold_settle_fulfilled [OF all, unfolded settled_def] fold_settle_frame [of ?rs] clickStop_frame
  show "settled (run_batch w config m b n s) = settled s + nat n"
    by (simp add: run_batch_def Let_def addLog_def settled_def f)
  show "length (responseTimes (run_batch w config m b n s)) = length (responseTimes s) + nat n"
    by (simp add: run_batch_def Let_def addLog_def f)
  show "totalRequests (testResult (run_batch w config m b n s)) = totalRequests (testResult s)"
    by (simp add: run_batch_def Let_def addLog_def f)
  show "dispatched (run_batch w config m b n s) = dispatched s @ [n]"
    by (simp add: run_batch_def Let_def addLog_def f)
  show "progressTrace (run_batch w config m b n s) =
           progressTrace s @ [double_value (double_times (double_div (b + 1) m) 100)]"
    by (simp add: run_batch_def Let_def addLog_def f)
  show "currentProgress (run_batch w config m b n s) = double_value (double_times (double_div (b + 1) m) 100)"
    by (simp add: run_batch_def Let_def addLog_def f)
qed

text \<open>The loop: one unfolding, and what a loop that returns has done.\<close>

lemma batch_loop_unfold:
  "batch_loop w config m b s =
     (if b < m then
        (if min (concurrency config) (requestCount config - b * concurrency config) < 0 \<or>
            4294967295 < min (concurrency config) (requestCount config - b * concurrency config)
         then Inl (Error ''Invalid array length'', s)
         else batch_loop w config m (b + 1)
                (run_batch w config m b
                   (min (concurrency config) (requestCount config - b * concurrency config)) s))
      else Inr s)"
  by (subst batch_loop.simps) (simp add: Let_def)

lemma batch_loop_returns:
  "batch_loop w config m b s = Inr s' \<Longrightarrow>
     int (settled s') = int (settled s) + sum_list (batch_sizes config m b) \<and>
     int (length (responseTimes s')) = int (length (responseTimes s)) + sum_list (batch_sizes config m b) \<and>
     totalRequests (testResult s') = totalRequests (testResult s) \<and>
     dispatched s' = dispatched s @ batch_sizes config m b \<and>
     progressTrace s' = progressTrace s @ batch_progress m b"
proof (induction w config m b s rule: batch_loop.induct)
  case (1 w config m b s)
  show ?case
  proof (cases "b < m")
    case False
    with "1.prems" show ?thesis
      by (simp add: batch_loop_unfold [of w config m b] batch_sizes_def batch_progress_def)
  next
    case True
    define n where "n = min (concurrency config) (requestCount config - b * concurrency config)"
    have ok: "\<not> (n < 0 \<or> 4294967295 < n)"
      using "1.prems" True unfolding n_def
      by (subst (asm) batch_loop_unfold) (simp split: if_splits)
    then have n0: "0 \<le> n" by simp
    have rec: "batch_loop w config m (b + 1) (run_batch w config m b n s) = Inr s'"
      using "1.prems" True ok unfolding n_def
      by (subst (asm) batch_loop_unfold) (simp split: if_splits)
    have upt: "[b..m - 1] = b # [b + 1..m - 1]"
      using True by (simp add: upto_rec1)
    have IH: "int (settled s') = int (settled (run_batch w config m b n s)) + sum_list (batch_sizes config m (b + 1)) \<and>
     int (length (responseTimes s')) = int (length (responseTimes (run_batch w config m b n s))) + sum_list (batch_sizes config m (b + 1)) \<and>
     totalRequests (testResult s') = totalRequests (testResult (run_batch w config m b n s)) \<and>
     dispatched s' = dispatched (run_batch w config m b n s) @ batch_sizes config m (b + 1) \<and>
     progressTrace s' = progressTrace (run_batch w config m b n s) @ batch_progress m (b + 1)"
      using "1.IH" [OF True refl refl _ rec [unfolded n_def]] ok unfolding n_def by simp
    have sizes: "batch_sizes config m b = n # batch_sizes config m (b + 1)"
      by (simp add: batch_sizes_def upt n_def)
    have progress: "batch_progress m b = (double_value (double_times (double_div (b + 1) m) 100)) # batch_progress m (b + 1)"
      by (simp add: batch_progress_def upt)
    show ?thesis
      using IH n0 by (simp add: run_batch_effect sizes progress)
  qed
qed


text \<open>The ceiling of \<open>N / C\<close> by its bounds, the sum of the batch sizes, and the loop
  returning for every concurrency that is an array length.\<close>

lemma ceiling_bounds:
  fixes N C :: int
  assumes "0 < C"
  shows "N \<le> \<lceil>real_of_int N / real_of_int C\<rceil> * C"
    and "(\<lceil>real_of_int N / real_of_int C\<rceil> - 1) * C < N"
proof -
  let ?m = "\<lceil>real_of_int N / real_of_int C\<rceil>"
  have C: "0 < real_of_int C" using assms by simp
  have "real_of_int N / real_of_int C \<le> real_of_int ?m" by (rule le_of_int_ceiling)
  then have "real_of_int N \<le> real_of_int ?m * real_of_int C"
    by (simp only: pos_divide_le_eq [OF C])
  then have "real_of_int N \<le> real_of_int (?m * C)" by simp
  then show "N \<le> ?m * C" by (simp only: of_int_le_iff)
  have "real_of_int ?m - 1 < real_of_int N / real_of_int C"
    using ceiling_correct [of "real_of_int N / real_of_int C"] by linarith
  then have "(real_of_int ?m - 1) * real_of_int C < real_of_int N"
    by (simp only: pos_less_divide_eq [OF C])
  then have "real_of_int ((?m - 1) * C) < real_of_int N" by simp
  then show "(?m - 1) * C < N" by (simp only: of_int_less_iff)
qed

lemma sum_batch_sizes:
  assumes "0 < concurrency config"
    and "requestCount config \<le> m * concurrency config"
    and "(m - 1) * concurrency config < requestCount config"
    and "b \<le> m"
  shows "sum_list (batch_sizes config m b) = max 0 (requestCount config - b * concurrency config)"
  using assms(4)
proof (induction "nat (m - b)" arbitrary: b)
  case 0
  then have "b = m" by simp
  then show ?case using assms(2) by (simp add: batch_sizes_def)
next
  case (Suc k)
  then have lt: "b < m" by linarith
  have upt: "[b..m - 1] = b # [b + 1..m - 1]"
    using lt by (simp add: upto_rec1)
  have sizes: "batch_sizes config m b =
      min (concurrency config) (requestCount config - b * concurrency config) # batch_sizes config m (b + 1)"
    by (simp add: batch_sizes_def upt)
  have IH: "sum_list (batch_sizes config m (b + 1)) = max 0 (requestCount config - (b + 1) * concurrency config)"
    using Suc.hyps(1) [of "b + 1"] Suc.hyps(2) lt by simp
  have "b * concurrency config \<le> (m - 1) * concurrency config"
    using lt assms(1) by (simp add: mult_right_mono)
  then have pos: "b * concurrency config < requestCount config"
    using assms(3) by linarith
  have step: "sum_list (batch_sizes config m b) =
      min (concurrency config) (requestCount config - b * concurrency config) +
      max 0 (requestCount config - (b + 1) * concurrency config)"
    by (simp only: sizes IH sum_list.Cons)
  have next_batch: "(b + 1) * concurrency config = b * concurrency config + concurrency config"
    by (simp add: algebra_simps)
  show ?case
    unfolding step next_batch using pos by (simp add: min_def max_def)
qed

lemma batch_loop_total:
  assumes "0 < concurrency config" and "concurrency config \<le> 4294967295"
    and "(m - 1) * concurrency config < requestCount config"
  shows "\<exists>s'. batch_loop w config m b s = Inr s'"
  using assms
proof (induction w config m b s rule: batch_loop.induct)
  case (1 w config m b s)
  show ?case
  proof (cases "b < m")
    case False
    then show ?thesis by (subst batch_loop_unfold) simp
  next
    case True
    define n where "n = min (concurrency config) (requestCount config - b * concurrency config)"
    have "b * concurrency config \<le> (m - 1) * concurrency config"
      using True "1.prems"(1) by (simp add: mult_right_mono)
    then have "b * concurrency config < requestCount config"
      using "1.prems"(3) by linarith
    then have ok: "\<not> (n < 0 \<or> 4294967295 < n)"
      using "1.prems"(1,2) by (simp add: n_def min_def)
    have "\<exists>s'. batch_loop w config m (b + 1) (run_batch w config m b n s) = Inr s'"
      using "1.IH" [OF True refl refl _ "1.prems"] ok unfolding n_def by simp
    then show ?thesis
      using True ok unfolding n_def by (subst batch_loop_unfold) simp
  qed
qed

text \<open>The start and the end of a run.\<close>

lemma finalize_frame:
  "result (finalize w s) = Some (testResult (finalize w s))"
  "isRunning (testResult (finalize w s)) = False"
  "endTime (testResult (finalize w s)) = Some (dateAtEnd w)"
  "totalRequests (testResult (finalize w s)) = totalRequests (testResult s)"
  "settled (finalize w s) = settled s"
  "responseTimes (finalize w s) = responseTimes s"
  "dispatched (finalize w s) = dispatched s"
  "progressTrace (finalize w s) = progressTrace s"
  "currentProgress (finalize w s) = currentProgress s"
  by (simp_all add: finalize_def Let_def addLog_def settled_def)

lemma start_run_frame:
  "totalRequests (testResult (start_run w config)) = requestCount config"
  "settled (start_run w config) = 0"
  "responseTimes (start_run w config) = []"
  "dispatched (start_run w config) = []"
  "progressTrace (start_run w config) = [0]"
  "currentProgress (start_run w config) = 0"
  by (simp_all add: start_run_def Let_def addLog_def settled_def)

lemma runTest_Finished:
  assumes "runTest w config c = Finished s" and "concurrency config \<noteq> 0"
  shows "\<exists>s'. batch_loop w config \<lceil>real_of_int (requestCount config) / real_of_int (concurrency config)\<rceil> 0
                 (start_run w config) = Inr s' \<and> s = finalize w s'"
  using assms
  by (auto simp: runTest_def ceil_div_def Let_def split: if_splits sum.splits prod.splits)


lemma batch_loop_current:
  "batch_loop w config m b s = Inr s' \<Longrightarrow> currentProgress s = last (progressTrace s) \<Longrightarrow>
   currentProgress s' = last (progressTrace s')"
proof (induction w config m b s rule: batch_loop.induct)
  case (1 w config m b s)
  show ?case
  proof (cases "b < m")
    case False
    with "1.prems" show ?thesis
      by (simp add: batch_loop_unfold [of w config m b])
  next
    case True
    define n where "n = min (concurrency config) (requestCount config - b * concurrency config)"
    have ok: "\<not> (n < 0 \<or> 4294967295 < n)"
      using "1.prems"(1) True unfolding n_def
      by (subst (asm) batch_loop_unfold) (simp split: if_splits)
    have rec: "batch_loop w config m (b + 1) (run_batch w config m b n s) = Inr s'"
      using "1.prems"(1) True ok unfolding n_def
      by (subst (asm) batch_loop_unfold) (simp split: if_splits)
    have cur: "currentProgress (run_batch w config m b n s) = last (progressTrace (run_batch w config m b n s))"
      by (simp add: run_batch_effect)
    show ?thesis
      using "1.IH" [OF True refl refl _ rec [unfolded n_def]] ok cur unfolding n_def by simp
  qed
qed

text \<open>The doubles of the progress, evaluated: exact for the quarters, rounded for 11
  batches of 20 (\<^verbatim>\<open>55.00000000000001\<close>) and 7 of 25 (\<^verbatim>\<open>28.000000000000004\<close>).\<close>

lemma bit_length_numeral:
  "bit_length 0 = 0"
  "bit_length (Suc 0) = 1"
  "bit_length (numeral k) = Suc (bit_length (numeral k div 2))"
  by (subst bit_length.simps, simp)+

lemmas double_eval = nearest_double_def round_half_even_def bit_length_numeral Let_def

lemma progress_of_four:
  "double_value (double_times (double_div 1 4) 100) = 25"
  "double_value (double_times (double_div 2 4) 100) = 50"
  "double_value (double_times (double_div 3 4) 100) = 75"
  "double_value (double_times (double_div 4 4) 100) = 100"
proof -
  have d: "double_div 1 4 = (4503599627370496, - 54)"
    "double_div 2 4 = (4503599627370496, - 53)"
    "double_div 3 4 = (6755399441055744, - 53)"
    "double_div 4 4 = (4503599627370496, - 52)"
    by (simp_all add: double_div_def double_eval)
  have t: "double_times (4503599627370496, - 54) 100 = (7036874417766400, - 48)"
    "double_times (4503599627370496, - 53) 100 = (7036874417766400, - 47)"
    "double_times (6755399441055744, - 53) 100 = (5277655813324800, - 46)"
    "double_times (4503599627370496, - 52) 100 = (7036874417766400, - 46)"
    by (simp_all add: double_times_def) (simp_all add: double_eval)
  show "double_value (double_times (double_div 1 4) 100) = 25"
    "double_value (double_times (double_div 2 4) 100) = 50"
    "double_value (double_times (double_div 3 4) 100) = 75"
    "double_value (double_times (double_div 4 4) 100) = 100"
    by (simp_all add: d t double_value_def)
qed

lemma progress_rounded:
  "double_value (double_times (double_div 11 20) 100) = 55 + 1 / 2 ^ 47"
  "double_value (double_times (double_div 7 25) 100) = 28 + 1 / 2 ^ 48"
proof -
  have d: "double_div 11 20 = (4953959590107546, - 53)"
    "double_div 7 25 = (5044031582654956, - 54)"
    by (simp_all add: double_div_def double_eval)
  have t: "double_times (4953959590107546, - 53) 100 = (7740561859543041, - 47)"
    "double_times (5044031582654956, - 54) 100 = (7881299347898369, - 48)"
    by (simp_all add: double_times_def) (simp_all add: double_eval)
  show "double_value (double_times (double_div 11 20) 100) = 55 + 1 / 2 ^ 47"
    "double_value (double_times (double_div 7 25) 100) = 28 + 1 / 2 ^ 48"
    by (simp_all add: d t double_value_def)
qed

lemma example_run: "runTest example_world example_config idle = Finished example_final"
  by (simp add: runTest_def start_run_def example_world_def example_config_def idle_def
      example_final_def example_result_def ceil_div_def batch_loop_unfold run_batch_def Let_def
      addLog_def clickStop_def stopButtonShown_def stopTest_def settle_def makeRequest_def
      try_catch_def finalize_def upt_rec progress_of_four)

lemma runTest_finishes:
  assumes "url config \<noteq> []" and "1 \<le> concurrency config" and "concurrency config \<le> 4294967295"
  shows "\<exists>s. runTest w config c = Finished s"
proof -
  let ?m = "\<lceil>real_of_int (requestCount config) / real_of_int (concurrency config)\<rceil>"
  have C: "0 < concurrency config" using assms(2) by simp
  obtain s' where "batch_loop w config ?m 0 (start_run w config) = Inr s'"
    using batch_loop_total [OF C assms(3) ceiling_bounds(2) [OF C]] by blast
  then show ?thesis
    using assms(1) C by (simp add: runTest_def ceil_div_def Let_def)
qed

lemma runTest_trace:
  assumes "runTest w config c = Finished s" and "concurrency config \<noteq> 0"
  shows "dispatched s =
           batch_sizes config \<lceil>real_of_int (requestCount config) / real_of_int (concurrency config)\<rceil> 0"
    and "progressTrace s =
           0 # batch_progress \<lceil>real_of_int (requestCount config) / real_of_int (concurrency config)\<rceil> 0"
    and "currentProgress s = last (progressTrace s)"
proof -
  let ?m = "\<lceil>real_of_int (requestCount config) / real_of_int (concurrency config)\<rceil>"
  obtain s' where loop: "batch_loop w config ?m 0 (start_run w config) = Inr s'"
    and s: "s = finalize w s'"
    using runTest_Finished [OF assms] by auto
  note r = batch_loop_returns [OF loop]
  show "dispatched s = batch_sizes config ?m 0"
    using r by (simp add: s finalize_frame start_run_frame)
  show "progressTrace s = 0 # batch_progress ?m 0"
    using r by (simp add: s finalize_frame start_run_frame)
  have "currentProgress s' = last (progressTrace s')"
    by (rule batch_loop_current [OF loop]) (simp add: start_run_frame)
  then show "currentProgress s = last (progressTrace s)"
    by (simp add: s finalize_frame)
qed

lemma batch_sizes_nth:
  "length (batch_sizes config m 0) = nat m"
  "k < nat m \<Longrightarrow> batch_sizes config m 0 ! k =
      min (concurrency config) (requestCount config - int k * concurrency config)"
  by (simp_all add: batch_sizes_def nth_upto)

text \<open>
  Outside the domain of the configuration. With \<open>concurrency = 0\<close> and a positive
  count \<^verbatim>\<open>totalBatches\<close> is \<^verbatim>\<open>Infinity\<close> and every batch has size 0, so
  \<^verbatim>\<open>Array(0)\<close> never throws and the loop has no exit. With a negative count (the
  form accepts a typed \<open>-5\<close>) and a positive concurrency the loop runs no batch.
\<close>

lemma empty_batches_never_throw:
  assumes "concurrency config = 0" and "0 < requestCount config"
  shows "ceil_div (requestCount config) (concurrency config) = PosInfinity"
    and "min (concurrency config) (requestCount config - b * concurrency config) = 0"
  using assms by (simp_all add: ceil_div_def)

lemma negative_count_example:
  "runTest example_world (example_config\<lparr>requestCount := - 5\<rparr>) idle = Finished s \<Longrightarrow>
   dispatched s = [] \<and> settled s = 0 \<and> totalRequests (testResult s) = - 5"
  by (auto simp: runTest_def start_run_def example_config_def ceil_div_def batch_loop_unfold Let_def
      finalize_def addLog_def settled_def)

text \<open>The clicks on Stop change neither the batches dispatched nor the progress.\<close>

lemma dispatched_whatever_the_clicks:
  assumes "runTest w config c = Finished s"
    and "runTest (w\<lparr>stopDuringBatch := f, stopDuringPause := g\<rparr>) config c = Finished s'"
    and "concurrency config \<noteq> 0"
  shows "dispatched s' = dispatched s" and "progressTrace s' = progressTrace s"
  using runTest_trace(1,2) [OF assms(1,3)] runTest_trace(1,2) [OF assms(2,3)] by simp_all

text \<open>
  What \<^verbatim>\<open>stopTest\<close> does, and where a click reaches it: nothing happens without a
  result or without the button, and after a finished run the button is not there.
\<close>

lemma stopTest_effect:
  "(result c = None \<longrightarrow> stopTest w c = c) \<and>
   (\<forall>r. result c = Some r \<longrightarrow>
      stopTest w c = c\<lparr>result := Some (r\<lparr>isRunning := False\<rparr>),
                       logs := logs c @ [(localeTime w (length (logs c)), StoppedByUser)]\<rparr>) \<and>
   (\<not> stopButtonShown c \<longrightarrow> clickStop w c = c)"
  by (simp add: stopTest_def addLog_def clickStop_def)

lemma finished_run_not_running:
  assumes "runTest w config c = Finished s"
  shows "\<not> stopButtonShown s" and "clickStop w' s = s"
proof -
  obtain s' where "s = finalize w s'"
    using assms
    by (auto simp: runTest_def Let_def split: if_splits js_number.splits sum.splits prod.splits)
  then show "\<not> stopButtonShown s"
    by (simp add: stopButtonShown_def finalize_frame)
  then show "clickStop w' s = s"
    by (simp add: clickStop_def)
qed

text \<open>The definitions that evaluate \<^verbatim>\<open>parseHeaders\<close> on a given text.\<close>

lemmas parse_defs = parseHeaders_def parseHeaderLines_def add_header_line_def trim_def
  js_space_def set_property_def


section \<open>Header parsing\<close>

text \<open>
  Claim C5. The text of the specification, \<open>X-Test: 1\<close>, \<open>BadLine\<close>, \<open>Y: 2\<close> on
  three lines and no token, yields exactly the two entries \<open>X-Test\<close> and \<open>Y\<close>. A
  line is not split at its first colon only, though: \<^verbatim>\<open>split(':')\<close> cuts at every
  colon and the code keeps the first two pieces, so the value of
  \<open>Host: example.com:8080\<close> is cut to \<open>example.com\<close>, and the line \<open>X-Note: :8080\<close>,
  whose text after the first colon is not empty, is discarded.
\<close>

theorem header_value_cut_at_second_colon:
  "parseHeaders example_config newline_example = [''X-Test'' \<mapsto> ''1'', ''Y'' \<mapsto> ''2''] \<and>
   parseHeaders example_config ''Host: example.com:8080'' = [''Host'' \<mapsto> ''example.com''] \<and>
   parseHeaders example_config ''X-Note: :8080'' = Map.empty"
  by (simp add: parse_defs example_config_def newline_example_def)

text \<open>
  Claim C6. With a non-empty token the effective headers are the custom headers with
  the entry \<open>Authorization\<close> written last, so it overrides a custom header of that
  name; its value is the token behind \<open>Bearer \<close>, or the token itself when it
  already starts with \<open>Bearer \<close>. With an empty token the effective headers are the
  custom headers and nothing else.
\<close>

theorem authorization_entry:
  "(authToken config \<noteq> [] \<longrightarrow>
      parseHeaders config hs = (parseHeaderLines hs)(''Authorization'' \<mapsto> bearer (authToken config)) \<and>
      parseHeaders config hs ''Authorization'' = Some (bearer (authToken config))) \<and>
   (authToken config = [] \<longrightarrow> parseHeaders config hs = parseHeaderLines hs) \<and>
   (prefix ''Bearer '' token \<longrightarrow> bearer token = token) \<and>
   (\<not> prefix ''Bearer '' token \<longrightarrow> bearer token = ''Bearer '' @ token)"
  by (simp add: parseHeaders_def bearer_def Let_def)

theorem authorization_entry_witness:
  "authToken (example_config\<lparr>authToken := ''abc''\<rparr>) \<noteq> [] \<and>
   parseHeaders (example_config\<lparr>authToken := ''abc''\<rparr>) ''Authorization: Basic old'' ''Authorization''
     = Some ''Bearer abc'' \<and>
   parseHeaderLines ''Authorization: Basic old'' ''Authorization'' = Some ''Basic old'' \<and>
   authToken example_config = [] \<and>
   parseHeaders example_config ''Authorization: Basic old'' ''Authorization'' = Some ''Basic old'' \<and>
   parseHeaders example_config newline_example ''Authorization'' = None \<and>
   prefix ''Bearer '' ''Bearer abc'' \<and> bearer ''Bearer abc'' = ''Bearer abc'' \<and>
   \<not> prefix ''Bearer '' ''abc'' \<and> bearer ''abc'' = ''Bearer abc''"
  using authorization_entry [of "example_config\<lparr>authToken := ''abc''\<rparr>" "''Authorization: Basic old''" "''Bearer abc''"]
    authorization_entry [of example_config "''Authorization: Basic old''" "''abc''"]
    authorization_entry [of example_config newline_example "''abc''"]
  by (simp add: example_config_def parseHeaderLines_def add_header_line_def trim_def
      js_space_def set_property_def newline_example_def bearer_def)

text \<open>
  Claim C10. The override is case-sensitive on the name: with a non-empty token a
  custom header spelled \<open>Authorization\<close> is replaced by the derived entry, every
  other key keeps its custom value, and a custom header \<open>authorization\<close> stays in
  the map beside the derived \<open>Authorization\<close>.
\<close>

theorem authorization_override_case_sensitive:
  assumes "authToken config \<noteq> []"
  shows "(\<forall>v. parseHeaderLines hs ''Authorization'' = Some v \<longrightarrow>
            parseHeaders config hs ''Authorization'' = Some (bearer (authToken config))) \<and>
         (\<forall>k. k \<noteq> ''Authorization'' \<longrightarrow> parseHeaders config hs k = parseHeaderLines hs k) \<and>
         (\<forall>v. parseHeaderLines hs ''authorization'' = Some v \<longrightarrow>
            parseHeaders config hs ''authorization'' = Some v \<and>
            {''authorization'', ''Authorization''} \<subseteq> dom (parseHeaders config hs))"
  using assms by (simp add: parseHeaders_def bearer_def Let_def dom_def)

theorem authorization_override_case_sensitive_witness:
  "authToken (example_config\<lparr>authToken := ''abc''\<rparr>) \<noteq> [] \<and>
   parseHeaderLines two_authorizations ''Authorization'' = Some ''Basic older'' \<and>
   parseHeaderLines two_authorizations ''authorization'' = Some ''Basic old'' \<and>
   parseHeaders (example_config\<lparr>authToken := ''abc''\<rparr>) two_authorizations ''Authorization''
     = Some ''Bearer abc'' \<and>
   parseHeaders (example_config\<lparr>authToken := ''abc''\<rparr>) two_authorizations ''authorization''
     = Some ''Basic old'' \<and>
   parseHeaders (example_config\<lparr>authToken := ''abc''\<rparr>) two_authorizations
     = [''authorization'' \<mapsto> ''Basic old'', ''Authorization'' \<mapsto> ''Bearer abc'']"
proof -
  have t: "authToken (example_config\<lparr>authToken := ''abc''\<rparr>) \<noteq> []" by simp
  show ?thesis
    using authorization_override_case_sensitive [OF t, of two_authorizations] t
    by (simp add: example_config_def parseHeaderLines_def add_header_line_def trim_def
      js_space_def set_property_def two_authorizations_def bearer_def parseHeaders_def)
qed


section \<open>The request executor\<close>

text \<open>
  Claim C4. For every configuration and whatever \<^verbatim>\<open>fetch\<close> does, \<^verbatim>\<open>makeRequest\<close>
  fulfils (it never rejects): a response of any status gives \<open>success = True\<close> with
  that status and the elapsed time, a thrown value gives \<open>success = False\<close> with an
  error message and the elapsed time.
\<close>

theorem makeRequest_outcome:
  "makeRequest w config b i =
     Inr (case fetch w b i (url config) (request_options config) of
            Resolves st \<Rightarrow>
              \<lparr>success = True, status = Some st, error = None,
               responseTime = perfEnd w b i - perfStart w b i\<rparr>
          | Rejects e \<Rightarrow>
              \<lparr>success = False, status = None,
               error = Some (case e of Error m \<Rightarrow> m | NonError \<Rightarrow> ''Unknown error''),
               responseTime = perfEnd w b i - perfStart w b i\<rparr>)"
  by (simp add: makeRequest_def try_catch_def Let_def split: fetch_result.splits)


section \<open>Starting a run\<close>

text \<open>
  Claim C9. With an empty target \<^verbatim>\<open>runTest\<close> leaves by its early return after
  logging \<open>Error: URL is required\<close> (this is the validation failure: the source logs
  it and throws nothing): the result and the progress are unchanged and no run state
  is created, so no batch is dispatched. With a non-empty target it never leaves that
  way.
\<close>

theorem runTest_requires_url:
  "(url config = [] \<longrightarrow>
      runTest w config c = EarlyReturn (addLog w UrlRequired c) \<and>
      result (addLog w UrlRequired c) = result c \<and>
      currentProgress (addLog w UrlRequired c) = currentProgress c \<and>
      logs (addLog w UrlRequired c) = logs c @ [(localeTime w (length (logs c)), UrlRequired)]) \<and>
   (url config \<noteq> [] \<longrightarrow> (\<forall>c'. runTest w config c \<noteq> EarlyReturn c'))"
  by (simp add: runTest_def addLog_def Let_def split: js_number.splits sum.splits prod.splits)

theorem runTest_requires_url_witness:
  "url no_url_config = [] \<and>
   runTest example_world no_url_config completed =
     EarlyReturn (completed\<lparr>logs := [(''12:00:00'', UrlRequired)]\<rparr>) \<and>
   url example_config \<noteq> [] \<and>
   runTest example_world example_config idle \<noteq> EarlyReturn idle"
  using runTest_requires_url [of no_url_config example_world completed]
    runTest_requires_url [of example_config example_world idle]
  by (simp add: no_url_config_def example_config_def completed_def addLog_def example_world_def)


section \<open>Batches, counts and progress\<close>

text \<open>
  Claim C7. For \<open>N \<ge> 1\<close> requests and concurrency \<open>C \<ge> 1\<close> the number of batches is
  \<open>m = \<lceil>N / C\<rceil>\<close>, the least \<open>m\<close> with \<open>N \<le> m * C\<close>; a finished run dispatched
  \<open>m\<close> batches, and batch \<open>b\<close> (from 0) had \<open>min C (N - b * C)\<close> requests. Ten requests,
  three at a time, are four batches of sizes 3, 3, 3 and 1.
\<close>

theorem batch_partition:
  assumes "1 \<le> requestCount config" and "1 \<le> concurrency config"
    and "runTest w config c = Finished s"
    and "m = \<lceil>real_of_int (requestCount config) / real_of_int (concurrency config)\<rceil>"
  shows "ceil_div (requestCount config) (concurrency config) = Finite m \<and>
         (m - 1) * concurrency config < requestCount config \<and>
         requestCount config \<le> m * concurrency config \<and>
         length (dispatched s) = nat m \<and>
         (\<forall>b < nat m. dispatched s ! b =
            min (concurrency config) (requestCount config - int b * concurrency config)) \<and>
         (requestCount config = 10 \<and> concurrency config = 3 \<longrightarrow>
            m = 4 \<and> dispatched s = [3, 3, 3, 1])"
proof -
  have C: "0 < concurrency config" "concurrency config \<noteq> 0" using assms(2) by simp_all
  have d: "dispatched s = batch_sizes config m 0"
    using runTest_trace(1) [OF assms(3) C(2)] assms(4) by simp
  have ex: "m = 4 \<and> dispatched s = [3, 3, 3, 1]"
    if "requestCount config = 10" "concurrency config = 3"
  proof -
    have "m = 4" using that by (simp add: assms(4))
    then show ?thesis using that by (simp add: d batch_sizes_def upto_rec1)
  qed
  show ?thesis
    using ceiling_bounds [OF C(1), of "requestCount config"] C ex
    by (simp add: ceil_div_def assms(4) d batch_sizes_nth)
qed

theorem batch_partition_witness:
  "1 \<le> requestCount example_config \<and> 1 \<le> concurrency example_config \<and>
   runTest example_world example_config idle = Finished example_final \<and>
   ceil_div 10 3 = Finite 4 \<and> length (dispatched example_final) = 4 \<and>
   dispatched example_final ! 3 = min 3 (10 - 3 * 3) \<and>
   dispatched example_final = [3, 3, 3, 1]"
proof -
  have n: "1 \<le> requestCount example_config" by (simp add: example_config_def)
  have c: "1 \<le> concurrency example_config" by (simp add: example_config_def)
  have m: "(4::int) = \<lceil>real_of_int (requestCount example_config) / real_of_int (concurrency example_config)\<rceil>"
    by (simp add: example_config_def)
  show ?thesis
    using batch_partition [OF n c example_run m] n c example_run
    by (simp add: example_config_def)
qed

text \<open>
  Claim C3. For every completed run with total request count \<open>N\<close> (a count that is
  not negative, batches of at least one request), after finalization the published
  result is the finalized local object, it is no longer running, the successes and
  the failures add up to \<open>N\<close>, and \<open>N\<close> times were recorded: every request, answered
  or failed, contributes one time, because \<^verbatim>\<open>makeRequest\<close> always fulfils.
\<close>

theorem runTest_completed_counts:
  assumes "runTest w config c = Finished s"
    and "0 \<le> requestCount config" and "1 \<le> concurrency config"
  shows "result s = Some (testResult s) \<and> \<not> isRunning (testResult s) \<and>
         totalRequests (testResult s) = requestCount config \<and>
         int (successfulRequests (testResult s) + failedRequests (testResult s)) = requestCount config \<and>
         int (length (responseTimes s)) = requestCount config"
proof -
  let ?m = "\<lceil>real_of_int (requestCount config) / real_of_int (concurrency config)\<rceil>"
  have C: "0 < concurrency config" using assms(3) by simp
  obtain s' where loop: "batch_loop w config ?m 0 (start_run w config) = Inr s'"
    and s: "s = finalize w s'"
    using runTest_Finished [OF assms(1)] C by auto
  have "0 \<le> real_of_int (requestCount config) / real_of_int (concurrency config)"
    using assms(2) C by simp
  then have "- 1 < real_of_int (requestCount config) / real_of_int (concurrency config)"
    by linarith
  then have "0 \<le> ?m"
    by (simp only: zero_le_ceiling)
  then have "sum_list (batch_sizes config ?m 0) = max 0 (requestCount config - 0 * concurrency config)"
    by (intro sum_batch_sizes [OF C ceiling_bounds [OF C]])
  then have total: "sum_list (batch_sizes config ?m 0) = requestCount config"
    using assms(2) by simp
  note r = batch_loop_returns [OF loop]
  show ?thesis
    using r total by (simp add: s finalize_frame start_run_frame settled_def [symmetric])
qed

theorem runTest_completed_counts_witness:
  "runTest example_world example_config idle = Finished example_final \<and>
   0 \<le> requestCount example_config \<and> 1 \<le> concurrency example_config \<and>
   result example_final = Some (testResult example_final) \<and>
   \<not> isRunning (testResult example_final) \<and>
   totalRequests (testResult example_final) = 10 \<and>
   int (successfulRequests (testResult example_final) + failedRequests (testResult example_final)) = 10 \<and>
   int (length (responseTimes example_final)) = 10"
proof -
  have n: "0 \<le> requestCount example_config" by (simp add: example_config_def)
  have c: "1 \<le> concurrency example_config" by (simp add: example_config_def)
  show ?thesis
    using runTest_completed_counts [OF example_run n c] example_run n c
    by (simp add: example_config_def)
qed

section \<open>Stopping\<close>

text \<open>
  Claim C1. The claim is that after a stop requested once batch \<open>k\<close> of \<open>m\<close> has
  settled no further batch is dispatched. The loop of \<^verbatim>\<open>runTest\<close> reads no flag, and
  \<^verbatim>\<open>stopTest\<close> writes none: in the run of ten requests, three at a time, with a click
  on Stop during the pause after the first batch, the line \<open>Test stopped by user\<close> is
  followed by the batches 2, 3 and 4, all ten requests are counted, and the run ends
  as a completed one.
\<close>

theorem stop_click_does_not_cancel:
  "stopDuringPause example_world 0 \<and>
   runTest example_world example_config idle = Finished example_final \<and>
   dispatched example_final = [3, 3, 3, 1] \<and>
   map snd (logs example_final) =
     [Starting ''http://localhost/'', Configuration 10 3,
      BatchCompleted 1 4 3 0, StoppedByUser,
      BatchCompleted 2 4 6 0, BatchCompleted 3 4 9 0, BatchCompleted 4 4 10 0,
      TestCompleted, Results 10 0, AverageTime 1] \<and>
   settled example_final = 10"
  using example_run
  by (simp add: example_world_def example_final_def example_result_def settled_def)

text \<open>
  Claim C8. The claim is that the progress after each batch is
  \<^verbatim>\<open>(completedBatches / totalBatches) * 100\<close>, never decreases, and is 100 only on the
  final snapshot of a completed run, one that was not stopped. In the run of ten
  requests, three at a time, the user stops the run during the pause after the first
  batch, with the progress at 25; the progress goes on to 50, 75 and 100 all the same,
  and the run that was stopped ends at 100.
\<close>

theorem stopped_run_reaches_100:
  "stopDuringPause example_world 0 \<and>
   runTest example_world example_config idle = Finished example_final \<and>
   map snd (logs example_final) ! 2 = BatchCompleted 1 4 3 0 \<and>
   map snd (logs example_final) ! 3 = StoppedByUser \<and>
   progressTrace example_final = [0, 25, 50, 75, 100] \<and>
   currentProgress example_final = 100"
  using example_run
  by (simp add: example_world_def example_final_def)

text \<open>
  Claim C2. Where the program can call \<^verbatim>\<open>stopTest\<close> the no-op half of the claim holds
  (\<open>stopTest_effect\<close>, \<open>finished_run_not_running\<close>), and in the Running state the
  displayed result gets \<open>isRunning = False\<close> at once. But no cancellation flag is
  set: in the run of ten requests, three at a time, at the pause after the first
  batch, \<^verbatim>\<open>stopTest\<close> changes the displayed result and the logs and nothing else. The
  local object the loop works on is still running, and the next batch publishes it
  again, so the displayed result is running once more.
\<close>

theorem stop_sets_no_flag:
  "run_batch quiet_world example_config 4 0 3 (start_run quiet_world example_config)
     = running_example \<and>
   stopButtonShown running_example \<and>
   stopTest example_world running_example =
     running_example
       \<lparr>result := Some (first_batch_result\<lparr>isRunning := False\<rparr>),
        logs := logs running_example @ [(''12:00:00'', StoppedByUser)]\<rparr> \<and>
   run_batch example_world example_config 4 0 3 (start_run example_world example_config)
     = stopTest example_world running_example \<and>
   isRunning (testResult (stopTest example_world running_example)) \<and>
   result (run_batch quiet_world example_config 4 1 3 (stopTest example_world running_example))
     = Some (first_batch_result\<lparr>successfulRequests := 6\<rparr>)"
  by (simp add: run_batch_def start_run_def quiet_world_def example_world_def example_config_def
      running_example_def first_batch_result_def Let_def addLog_def clickStop_def
      stopButtonShown_def stopTest_def settle_def makeRequest_def try_catch_def upt_rec
      progress_of_four)

end
